theory Spec2Isabelle
  imports Complex_Main
begin

section \<open>Python values and exceptions\<close>

text \<open>
  The programs read JSON documents with \<^verbatim>\<open>json.load\<close>. A loaded value is one of
  Python's \<^verbatim>\<open>None\<close>, \<^verbatim>\<open>bool\<close>, number, \<^verbatim>\<open>str\<close>, \<^verbatim>\<open>list\<close> or \<^verbatim>\<open>dict\<close>. Numbers are
  modelled as exact rationals (Python's \<^verbatim>\<open>int\<close> and the finite \<^verbatim>\<open>float\<close>s without
  rounding); a \<^verbatim>\<open>dict\<close> keeps its items as an association list that is read with
  \<^const>\<open>map_of\<close>.
\<close>

datatype json =
    JNull
  | JBool bool
  | JNum rat
  | JStr string
  | JArr "json list"
  | JObj "(string \<times> json) list"

text \<open>
  Exceptions are values. \<^verbatim>\<open>ValueError\<close> carries the message the repository gives it;
  the text of the exceptions raised by the interpreter or by library code is not part of
  the repository. \<^verbatim>\<open>KeyboardInterrupt\<close> stands for the classes that derive from
  \<^verbatim>\<open>BaseException\<close> but not from \<^verbatim>\<open>Exception\<close>.
\<close>

datatype exn =
    ValueError string
  | JSONDecodeError
  | FileNotFoundError
  | PermissionError
  | IsADirectoryError
  | UnicodeDecodeError
  | RecursionError
  | TypeError
  | KeyError
  | AttributeError
  | ImportError
  | OverflowError
  | ZeroDivisionError
  | KeyboardInterrupt

text \<open>
  \<^verbatim>\<open>except Exception\<close> catches every class but those deriving from \<^verbatim>\<open>BaseException\<close>
  alone.
\<close>

fun is_Exception :: "exn \<Rightarrow> bool" where
  "is_Exception KeyboardInterrupt = False"
| "is_Exception _ = True"

text \<open>Sequencing of computations that may raise: the first exception ends the run.\<close>

fun exn_bind :: "exn + 'a \<Rightarrow> ('a \<Rightarrow> exn + 'b) \<Rightarrow> exn + 'b" where
  "exn_bind (Inl e) f = Inl e"
| "exn_bind (Inr x) f = f x"

text \<open>Truth value of a loaded value, as \<^verbatim>\<open>if x:\<close> and \<^verbatim>\<open>not x\<close> test it.\<close>

fun truthy :: "json \<Rightarrow> bool" where
  "truthy JNull = False"
| "truthy (JBool b) = b"
| "truthy (JNum r) = (r \<noteq> 0)"
| "truthy (JStr s) = (s \<noteq> [])"
| "truthy (JArr xs) = (xs \<noteq> [])"
| "truthy (JObj kvs) = (kvs \<noteq> [])"

text \<open>\<^verbatim>\<open>s.startswith(p)\<close> and the substring test \<^verbatim>\<open>sub in s\<close> on strings.\<close>

fun starts_with :: "string \<Rightarrow> string \<Rightarrow> bool" where
  "starts_with [] s = True"
| "starts_with (p # ps) [] = False"
| "starts_with (p # ps) (c # cs) = (p = c \<and> starts_with ps cs)"

fun str_contains :: "string \<Rightarrow> string \<Rightarrow> bool" where
  "str_contains sub [] = (sub = [])"
| "str_contains sub (c # cs) = (starts_with sub (c # cs) \<or> str_contains sub cs)"

text \<open>
  \<^verbatim>\<open>k in x\<close> for a string \<open>k\<close>: a key test on a \<^verbatim>\<open>dict\<close>, an element test on a
  \<^verbatim>\<open>list\<close>, a substring test on a \<^verbatim>\<open>str\<close>, and a \<^verbatim>\<open>TypeError\<close> on \<^verbatim>\<open>None\<close>, a
  \<^verbatim>\<open>bool\<close> or a number.
\<close>

fun py_in :: "string \<Rightarrow> json \<Rightarrow> exn + bool" where
  "py_in k (JObj kvs) = Inr (map_of kvs k \<noteq> None)"
| "py_in k (JArr xs) = Inr (JStr k \<in> set xs)"
| "py_in k (JStr s) = Inr (str_contains k s)"
| "py_in k _ = Inl TypeError"

text \<open>
  \<^verbatim>\<open>x[k]\<close> for a string \<open>k\<close>: \<^verbatim>\<open>KeyError\<close> on a \<^verbatim>\<open>dict\<close> without the key,
  \<^verbatim>\<open>TypeError\<close> on every other value.
\<close>

fun py_getitem :: "json \<Rightarrow> string \<Rightarrow> exn + json" where
  "py_getitem (JObj kvs) k = (case map_of kvs k of None \<Rightarrow> Inl KeyError | Some v \<Rightarrow> Inr v)"
| "py_getitem _ k = Inl TypeError"

text \<open>\<^verbatim>\<open>x.get(k, default)\<close>: only a \<^verbatim>\<open>dict\<close> has the method.\<close>

fun py_get :: "json \<Rightarrow> string \<Rightarrow> json \<Rightarrow> exn + json" where
  "py_get (JObj kvs) k d = (case map_of kvs k of None \<Rightarrow> Inr d | Some v \<Rightarrow> Inr v)"
| "py_get _ k d = Inl AttributeError"

text \<open>
  \<^verbatim>\<open>for x in v\<close>: the elements of a \<^verbatim>\<open>list\<close>, the keys of a \<^verbatim>\<open>dict\<close>, the
  characters of a \<^verbatim>\<open>str\<close>; the other values are not iterable.
\<close>

fun py_iter :: "json \<Rightarrow> exn + json list" where
  "py_iter (JArr xs) = Inr xs"
| "py_iter (JObj kvs) = Inr (map (\<lambda>kv. JStr (fst kv)) kvs)"
| "py_iter (JStr s) = Inr (map (\<lambda>c. JStr [c]) s)"
| "py_iter _ = Inl TypeError"

text \<open>Decimal digits of a natural number, as an f-string prints the index \<^verbatim>\<open>i\<close>.\<close>

fun show_nat :: "nat \<Rightarrow> string" where
  "show_nat n =
     (if n < 10 then [''0123456789'' ! n]
      else show_nat (n div 10) @ [''0123456789'' ! (n mod 10)])"

declare show_nat.simps [simp del]

section \<open>The environment\<close>

text \<open>
  What a path holds when it is opened and given to \<^verbatim>\<open>json.load\<close>: nothing, something
  that cannot be read as text, text that is not JSON, or a JSON document.
\<close>

datatype file_state =
    NoSuchFile
  | NoPermission
  | Directory
  | NotText
  | Malformed
  | TooDeep
  | Document json

text \<open>
  The environment of a run: the file system, and the text the interpreter builds and the
  repository does not (\<^verbatim>\<open>str\<close> of a loaded value, of an exception and of a \<^verbatim>\<open>float\<close>,
  and the path functions of \<^verbatim>\<open>os.path\<close>).
\<close>

record pyenv =
  files :: "string \<Rightarrow> file_state"
  str_of :: "json \<Rightarrow> string"
  exn_str :: "exn \<Rightarrow> string"
  float_str :: "rat \<Rightarrow> string"
  path_join :: "string \<Rightarrow> string \<Rightarrow> string"
  path_dirname :: "string \<Rightarrow> string"
  pychrono_available :: bool
  has_LoadSTLMesh :: bool

text \<open>\<^verbatim>\<open>with open(path, 'r') as f: data = json.load(f)\<close>\<close>

fun json_load_file :: "file_state \<Rightarrow> exn + json" where
  "json_load_file NoSuchFile = Inl FileNotFoundError"
| "json_load_file NoPermission = Inl PermissionError"
| "json_load_file Directory = Inl IsADirectoryError"
| "json_load_file NotText = Inl UnicodeDecodeError"
| "json_load_file Malformed = Inl JSONDecodeError"
| "json_load_file TooDeep = Inl RecursionError"
| "json_load_file (Document d) = Inr d"

definition path_exists :: "pyenv \<Rightarrow> string \<Rightarrow> bool" where
  "path_exists env p = (files env p \<noteq> NoSuchFile)"

section \<open>utils.py: validation of an exported document\<close>

definition required_fields :: "string list" where
  "required_fields = [''model_name'', ''bodies'', ''joints'', ''metadata'']"

definition missing_field_message :: "string \<Rightarrow> string" where
  "missing_field_message field = ''Missing required field: '' @ field"

text \<open>
  The loops of the validator return from the function at the first violation: \<open>Some r\<close>
  is that early return, \<open>None\<close> is the loop running to its end.
\<close>

fun check_required :: "string list \<Rightarrow> json \<Rightarrow> exn + (bool \<times> string) option" where
  "check_required [] data = Inr None"
| "check_required (field # rest) data =
     exn_bind (py_in field data) (\<lambda>present.
       if \<not> present then Inr (Some (False, missing_field_message field))
       else check_required rest data)"

fun check_bodies :: "pyenv \<Rightarrow> nat \<Rightarrow> json list \<Rightarrow> exn + (bool \<times> string) option" where
  "check_bodies env i [] = Inr None"
| "check_bodies env i (body # rest) =
     exn_bind (py_in ''name'' body) (\<lambda>has_name.
       if \<not> has_name then
         Inr (Some (False, ''Body '' @ show_nat i @ '' missing 'name' field''))
       else
         exn_bind (py_in ''mass_properties'' body) (\<lambda>has_mass_properties.
           if \<not> has_mass_properties then
             exn_bind (py_getitem body ''name'') (\<lambda>n.
               Inr (Some (False,
                 ''Body '' @ str_of env n @ '' missing 'mass_properties'' @ [CHR 0x27])))
           else check_bodies env (Suc i) rest))"

fun check_joints :: "pyenv \<Rightarrow> nat \<Rightarrow> json list \<Rightarrow> exn + (bool \<times> string) option" where
  "check_joints env i [] = Inr None"
| "check_joints env i (joint # rest) =
     exn_bind (py_in ''name'' joint) (\<lambda>has_name.
       if \<not> has_name then
         Inr (Some (False, ''Joint '' @ show_nat i @ '' missing 'name' field''))
       else
         exn_bind (py_in ''type'' joint) (\<lambda>has_type.
           if \<not> has_type then
             exn_bind (py_get joint ''name'' (JNum (of_nat i))) (\<lambda>n.
               Inr (Some (False, ''Joint '' @ str_of env n @ '' missing 'type' field'')))
           else check_joints env (Suc i) rest))"

text \<open>The body of the \<^verbatim>\<open>try\<close> block, after the document is loaded.\<close>

definition validate_data :: "pyenv \<Rightarrow> json \<Rightarrow> exn + (bool \<times> string)" where
  "validate_data env data =
     exn_bind (check_required required_fields data) (\<lambda>r1.
       case r1 of Some r \<Rightarrow> Inr r | None \<Rightarrow>
       exn_bind (py_getitem data ''bodies'') (\<lambda>bodies.
         case bodies of
           JArr bs \<Rightarrow>
             exn_bind (check_bodies env 0 bs) (\<lambda>r2.
               case r2 of Some r \<Rightarrow> Inr r | None \<Rightarrow>
               exn_bind (py_getitem data ''joints'') (\<lambda>joints.
                 case joints of
                   JArr js \<Rightarrow>
                     exn_bind (check_joints env 0 js) (\<lambda>r3.
                       case r3 of Some r \<Rightarrow> Inr r | None \<Rightarrow> Inr (True, ''Valid''))
                 | _ \<Rightarrow> Inr (False, ''joints must be a list'')))
         | _ \<Rightarrow> Inr (False, ''bodies must be a list'')))"

text \<open>
  The three \<^verbatim>\<open>except\<close> clauses, in their order. An exception that is no
  \<^verbatim>\<open>Exception\<close> would leave the function.
\<close>

definition validate_json_export :: "pyenv \<Rightarrow> string \<Rightarrow> exn + (bool \<times> string)" where
  "validate_json_export env json_path =
     (case exn_bind (json_load_file (files env json_path)) (validate_data env) of
        Inr r \<Rightarrow> Inr r
      | Inl e \<Rightarrow>
          if e = JSONDecodeError then Inr (False, ''JSON parsing error: '' @ exn_str env e)
          else if e = FileNotFoundError then Inr (False, ''File not found: '' @ json_path)
          else if is_Exception e then Inr (False, ''Validation error: '' @ exn_str env e)
          else Inl e)"


section \<open>utils.py: unit conversion\<close>

text \<open>The dictionary \<^verbatim>\<open>to_meters\<close> of \<^verbatim>\<open>convert_units\<close>, in the order it is written.\<close>

definition to_meters :: "(string \<times> rat) list" where
  "to_meters =
     [(''mm'', 0.001),
      (''cm'', 0.01),
      (''m'', 1.0),
      (''in'', 0.0254),
      (''ft'', 0.3048)]"

text \<open>
  \<^verbatim>\<open>convert_units\<close> with the value and the factors read as exact rationals: the
  reading in which a round trip is exact.
\<close>

definition convert_units :: "rat \<Rightarrow> string \<Rightarrow> string \<Rightarrow> exn + rat" where
  "convert_units val from_unit to_unit =
     (case (map_of to_meters from_unit, map_of to_meters to_unit) of
        (Some ff, Some tf) \<Rightarrow>
          (let value_in_meters = val * ff;
               result = value_in_meters / tf
           in Inr result)
      | _ \<Rightarrow>
          Inl (ValueError (''Unsupported unit conversion: '' @ from_unit @ '' to '' @ to_unit)))"

text \<open>
  \<^const>\<open>convert_units\<close> above reads the numbers as exact rationals. Python computes on an
  \<^verbatim>\<open>int\<close> or a \<^verbatim>\<open>float\<close> value with floats: a float is a finite value, an infinity or
  not-a-number, and every finite result is rounded. The rounding function \<open>rnd\<close>, from
  the exact result to the float that stands for it, is the arithmetic of the machine
  and a parameter here.
\<close>

datatype fl = Finite rat | PosInf | NegInf | NaN

datatype pynum = PyInt int | PyFloat fl

text \<open>\<^verbatim>\<open>x * y\<close> on floats: it never raises.\<close>

fun fl_mul :: "(rat \<Rightarrow> fl) \<Rightarrow> fl \<Rightarrow> fl \<Rightarrow> fl" where
  "fl_mul rnd NaN y = NaN"
| "fl_mul rnd x NaN = NaN"
| "fl_mul rnd (Finite a) (Finite b) = rnd (a * b)"
| "fl_mul rnd (Finite a) PosInf = (if a = 0 then NaN else if 0 < a then PosInf else NegInf)"
| "fl_mul rnd (Finite a) NegInf = (if a = 0 then NaN else if 0 < a then NegInf else PosInf)"
| "fl_mul rnd PosInf (Finite b) = (if b = 0 then NaN else if 0 < b then PosInf else NegInf)"
| "fl_mul rnd NegInf (Finite b) = (if b = 0 then NaN else if 0 < b then NegInf else PosInf)"
| "fl_mul rnd PosInf PosInf = PosInf"
| "fl_mul rnd PosInf NegInf = NegInf"
| "fl_mul rnd NegInf PosInf = NegInf"
| "fl_mul rnd NegInf NegInf = PosInf"

text \<open>\<^verbatim>\<open>x / y\<close> on floats: \<^verbatim>\<open>ZeroDivisionError\<close> on a zero divisor, and nothing else.\<close>

fun fl_truediv :: "(rat \<Rightarrow> fl) \<Rightarrow> fl \<Rightarrow> fl \<Rightarrow> exn + fl" where
  "fl_truediv rnd x (Finite b) =
     (if b = 0 then Inl ZeroDivisionError
      else case x of
        Finite a \<Rightarrow> Inr (rnd (a / b))
      | PosInf \<Rightarrow> Inr (if 0 < b then PosInf else NegInf)
      | NegInf \<Rightarrow> Inr (if 0 < b then NegInf else PosInf)
      | NaN \<Rightarrow> Inr NaN)"
| "fl_truediv rnd (Finite a) y = Inr (case y of NaN \<Rightarrow> NaN | _ \<Rightarrow> Finite 0)"
| "fl_truediv rnd x y = Inr NaN"

text \<open>
  An \<^verbatim>\<open>int\<close> operand of a float operation is converted to a float first. The
  conversion rounds to the nearest float and raises \<^verbatim>\<open>OverflowError\<close> when that is
  beyond the largest one, \<open>2\<^sup>1\<^sup>0\<^sup>2\<^sup>4 - 2\<^sup>9\<^sup>7\<^sup>1\<close>: from \<open>2\<^sup>1\<^sup>0\<^sup>2\<^sup>4 - 2\<^sup>9\<^sup>7\<^sup>0\<close> on.
\<close>

definition int_too_large :: "int \<Rightarrow> bool" where
  "int_too_large n = (2 ^ 1024 - 2 ^ 970 \<le> \<bar>n\<bar>)"

fun to_float :: "(rat \<Rightarrow> fl) \<Rightarrow> pynum \<Rightarrow> exn + fl" where
  "to_float rnd (PyFloat x) = Inr x"
| "to_float rnd (PyInt n) =
     (if int_too_large n then Inl OverflowError else Inr (rnd (of_int n)))"

text \<open>
  \<^verbatim>\<open>convert_units\<close> on Python's numbers. The literals of the dictionary are the floats
  that \<open>rnd\<close> gives them; the test of the two unit names comes before any arithmetic.
\<close>

definition convert_units_float ::
    "(rat \<Rightarrow> fl) \<Rightarrow> pynum \<Rightarrow> string \<Rightarrow> string \<Rightarrow> exn + fl" where
  "convert_units_float rnd val from_unit to_unit =
     (let to_meters_float = map (\<lambda>(u, c). (u, rnd c)) to_meters in
      case (map_of to_meters_float from_unit, map_of to_meters_float to_unit) of
        (Some ff, Some tf) \<Rightarrow>
          exn_bind (to_float rnd val) (\<lambda>v.
            let value_in_meters = fl_mul rnd v ff;
                result = fl_truediv rnd value_in_meters tf
            in result)
      | _ \<Rightarrow>
          Inl (ValueError (''Unsupported unit conversion: '' @ from_unit @ '' to '' @ to_unit)))"

section \<open>pychrono_loader.py: the simulation objects\<close>

type_synonym vec3 = "rat \<times> rat \<times> rat"

text \<open>
  A body of the physics engine, with the attributes the loader sets. A body is referred
  to by its handle, its index in the list of bodies of the system it was added to.
\<close>

datatype mesh_format = STLMesh | WavefrontMesh

record ChBody =
  body_name :: string
  body_mass :: rat
  body_pos :: vec3
  body_inertia_xx :: vec3
  body_collide :: bool
  body_mesh :: "(string \<times> mesh_format) option"
  body_fixed :: bool

datatype link_class = ChLinkLockRevolute | ChLinkLockLock | ChLinkLockPrismatic

record ChLink =
  link_class :: link_class
  link_body_one :: nat
  link_body_two :: nat
  link_origin :: vec3
  link_name :: string

record ChSystem =
  g_acc :: vec3
  bodies :: "ChBody list"
  links :: "ChLink list"

text \<open>
  Modelled from the spec: the constructor \<^verbatim>\<open>chrono.ChBody()\<close> belongs to the physics
  engine and is not in the repository. The spec gives a body whose mass properties are
  absent the mass 1.0 and the inertia diagonal (1, 1, 1), which the loader leaves as
  the constructor made them; the position starts at the origin, without collision,
  mesh or fixing.
\<close>

definition ChBody_new :: ChBody where
  "ChBody_new =
     \<lparr>body_name = [], body_mass = 1.0, body_pos = (0, 0, 0), body_inertia_xx = (1, 1, 1),
      body_collide = False, body_mesh = None, body_fixed = False\<rparr>"

text \<open>\<^verbatim>\<open>chrono.ChSystemNSC()\<close> followed by \<^verbatim>\<open>Set_G_acc(ChVectorD(0, -9.81, 0))\<close>.\<close>

definition ChSystemNSC_new :: ChSystem where
  "ChSystemNSC_new = \<lparr>g_acc = (0, - 9.81, 0), bodies = [], links = []\<rparr>"

text \<open>
  An argument of the engine that must be a string or a number: the binding raises
  \<^verbatim>\<open>TypeError\<close> on any other value; a \<^verbatim>\<open>bool\<close> counts as the number 0 or 1.
\<close>

fun as_str :: "json \<Rightarrow> exn + string" where
  "as_str (JStr s) = Inr s"
| "as_str _ = Inl TypeError"

fun as_double :: "json \<Rightarrow> exn + rat" where
  "as_double (JNum r) = Inr r"
| "as_double (JBool b) = Inr (if b then 1 else 0)"
| "as_double _ = Inl TypeError"

text \<open>\<^verbatim>\<open>v / 1000.0\<close>, the conversion from millimetres to metres.\<close>

definition div_1000 :: "json \<Rightarrow> exn + rat" where
  "div_1000 v = exn_bind (as_double v) (\<lambda>r. Inr (r / 1000.0))"

text \<open>
  \<^verbatim>\<open>ChVectorD(d.get('x', 0) / 1000.0, d.get('y', 0) / 1000.0, d.get('z', 0) / 1000.0)\<close>,
  as it is written for the centre of mass, the translation and the joint origin.
\<close>

definition mm_vector :: "json \<Rightarrow> exn + vec3" where
  "mm_vector d =
     exn_bind (exn_bind (py_get d ''x'' (JNum 0)) div_1000) (\<lambda>x.
     exn_bind (exn_bind (py_get d ''y'' (JNum 0)) div_1000) (\<lambda>y.
     exn_bind (exn_bind (py_get d ''z'' (JNum 0)) div_1000) (\<lambda>z.
       Inr (x, y, z))))"

section \<open>pychrono_loader.py: bodies\<close>

text \<open>The block \<^verbatim>\<open># Set mass properties\<close> of \<^verbatim>\<open>create_body_from_data\<close>.\<close>

definition set_mass_properties :: "json \<Rightarrow> ChBody \<Rightarrow> exn + ChBody" where
  "set_mass_properties body_data body =
     exn_bind (py_get body_data ''mass_properties'' (JObj [])) (\<lambda>mass_props.
       if truthy mass_props then
         exn_bind (exn_bind (py_get mass_props ''mass'' (JNum 1.0)) as_double) (\<lambda>mass.
         let body = body\<lparr>body_mass := mass\<rparr> in
         exn_bind (py_get mass_props ''center_of_mass'' (JObj [])) (\<lambda>com.
         exn_bind (if truthy com
                   then exn_bind (mm_vector com) (\<lambda>p. Inr (body\<lparr>body_pos := p\<rparr>))
                   else Inr body) (\<lambda>body.
         exn_bind (py_get mass_props ''moments_of_inertia'' (JObj [])) (\<lambda>inertia.
           if truthy inertia then
             exn_bind (exn_bind (py_get inertia ''xx'' (JNum 1.0)) as_double) (\<lambda>xx.
             exn_bind (exn_bind (py_get inertia ''yy'' (JNum 1.0)) as_double) (\<lambda>yy.
             exn_bind (exn_bind (py_get inertia ''zz'' (JNum 1.0)) as_double) (\<lambda>zz.
               Inr (body\<lparr>body_inertia_xx := (xx, yy, zz)\<rparr>))))
           else Inr body))))
       else Inr body)"

text \<open>The block \<^verbatim>\<open># Apply transformation if present\<close>.\<close>

definition apply_transform :: "json \<Rightarrow> ChBody \<Rightarrow> exn + ChBody" where
  "apply_transform body_data body =
     exn_bind (py_get body_data ''transform'' (JObj [])) (\<lambda>transform.
       if truthy transform then
         exn_bind (py_get transform ''translation'' (JObj [])) (\<lambda>translation.
           if truthy translation then
             exn_bind (mm_vector translation) (\<lambda>pos. Inr (body\<lparr>body_pos := pos\<rparr>))
           else Inr body)
       else Inr body)"

text \<open>\<^verbatim>\<open>stl_path.lower().endswith('.stl')\<close>\<close>

definition ends_with_stl :: "string \<Rightarrow> bool" where
  "ends_with_stl p =
     (case rev p of
        c4 # c3 # c2 # c1 # _ \<Rightarrow>
          c1 = CHR ''.'' \<and> (c2 = CHR ''s'' \<or> c2 = CHR ''S'') \<and>
          (c3 = CHR ''t'' \<or> c3 = CHR ''T'') \<and> (c4 = CHR ''l'' \<or> c4 = CHR ''L'')
      | _ \<Rightarrow> False)"

text \<open>
  The block \<^verbatim>\<open># Load collision geometry from STL if available\<close>: with a mesh file on
  disk the body collides and carries the mesh as collision and visual shape. The STL
  reader is used for a path ending in \<^verbatim>\<open>.stl\<close> when the engine has one.
\<close>

definition load_geometry :: "pyenv \<Rightarrow> json \<Rightarrow> string \<Rightarrow> ChBody \<Rightarrow> exn + ChBody" where
  "load_geometry env body_data geometry_dir body =
     exn_bind (py_get body_data ''geometry_file'' JNull) (\<lambda>geom_file.
       if truthy geom_file then
         exn_bind (as_str geom_file) (\<lambda>f.
           let stl_path = path_join env geometry_dir f in
           if path_exists env stl_path then
             Inr (body\<lparr>body_collide := True,
                        body_mesh := Some (stl_path,
                          if ends_with_stl stl_path \<and> has_LoadSTLMesh env
                          then STLMesh else WavefrontMesh)\<rparr>)
           else Inr body)
       else Inr body)"

text \<open>
  \<^verbatim>\<open>create_body_from_data\<close>: the new body, changed block by block, is added to the
  system last; the result is its handle and the system with the body in it.
\<close>

definition create_body_from_data ::
    "pyenv \<Rightarrow> json \<Rightarrow> string \<Rightarrow> ChSystem \<Rightarrow> exn + (nat \<times> ChSystem)" where
  "create_body_from_data env body_data geometry_dir system =
     exn_bind (exn_bind (py_getitem body_data ''name'') as_str) (\<lambda>name.
     exn_bind (set_mass_properties body_data (ChBody_new\<lparr>body_name := name\<rparr>)) (\<lambda>body.
     exn_bind (apply_transform body_data body) (\<lambda>body.
     exn_bind (load_geometry env body_data geometry_dir body) (\<lambda>body.
     exn_bind (py_get body_data ''is_fixed'' (JBool False)) (\<lambda>is_fixed.
       let body = (if truthy is_fixed then body\<lparr>body_fixed := True\<rparr> else body) in
       Inr (length (bodies system), system\<lparr>bodies := bodies system @ [body]\<rparr>))))))"

section \<open>pychrono_loader.py: joints\<close>

text \<open>
  \<^verbatim>\<open>body_map.get(name)\<close> on the table from body names to handles: a \<^verbatim>\<open>list\<close> or a
  \<^verbatim>\<open>dict\<close> cannot be hashed, and no other value equals one of the table's strings.
\<close>

fun body_map_get :: "(string \<rightharpoonup> nat) \<Rightarrow> json \<Rightarrow> exn + nat option" where
  "body_map_get body_map (JStr n) = Inr (body_map n)"
| "body_map_get body_map (JArr xs) = Inl TypeError"
| "body_map_get body_map (JObj kvs) = Inl TypeError"
| "body_map_get body_map _ = Inr None"

text \<open>\<^verbatim>\<open>a in t or b in t\<close>: the second test runs only when the first is false.\<close>

definition in_or_in :: "string \<Rightarrow> string \<Rightarrow> json \<Rightarrow> exn + bool" where
  "in_or_in a b t = exn_bind (py_in a t) (\<lambda>r. if r then Inr True else py_in b t)"

text \<open>The \<^verbatim>\<open>if\<close>/\<^verbatim>\<open>elif\<close> chain that chooses the class of the joint.\<close>

definition joint_class :: "json \<Rightarrow> exn + link_class option" where
  "joint_class joint_type =
     exn_bind (in_or_in ''Revolute'' ''RevoluteJointType'' joint_type) (\<lambda>revolute.
       if revolute then Inr (Some ChLinkLockRevolute) else
     exn_bind (in_or_in ''Rigid'' ''RigidJointType'' joint_type) (\<lambda>rigid.
       if rigid then Inr (Some ChLinkLockLock) else
     exn_bind (in_or_in ''Slider'' ''SliderJointType'' joint_type) (\<lambda>slider.
       if slider then Inr (Some ChLinkLockPrismatic) else Inr None)))"

text \<open>
  \<^verbatim>\<open>create_joint_from_data\<close>: the result is the joint that was made, if any, and the
  system, with the joint added to it.
\<close>

definition create_joint_from_data ::
    "json \<Rightarrow> (string \<rightharpoonup> nat) \<Rightarrow> ChSystem \<Rightarrow> exn + (ChLink option \<times> ChSystem)" where
  "create_joint_from_data joint_data body_map system =
     exn_bind (py_get joint_data ''type'' (JStr [])) (\<lambda>joint_type.
     exn_bind (py_get joint_data ''body_one'' JNull) (\<lambda>body_one_name.
     exn_bind (py_get joint_data ''body_two'' JNull) (\<lambda>body_two_name.
       if \<not> truthy body_one_name \<or> \<not> truthy body_two_name then Inr (None, system) else
     exn_bind (body_map_get body_map body_one_name) (\<lambda>body_one.
     exn_bind (body_map_get body_map body_two_name) (\<lambda>body_two.
       case (body_one, body_two) of
         (Some b1, Some b2) \<Rightarrow>
           exn_bind (py_get joint_data ''origin'' (JObj [])) (\<lambda>origin.
           exn_bind (mm_vector origin) (\<lambda>origin_pos.
           exn_bind (joint_class joint_type) (\<lambda>cls.
             case cls of
               None \<Rightarrow> Inr (None, system)
             | Some c \<Rightarrow>
                 exn_bind (exn_bind (py_get joint_data ''name'' (JStr [])) as_str) (\<lambda>name.
                   let joint = \<lparr>link_class = c, link_body_one = b1, link_body_two = b2,
                                link_origin = origin_pos, link_name = name\<rparr>
                   in Inr (Some joint, system\<lparr>links := links system @ [joint]\<rparr>)))))
       | _ \<Rightarrow> Inr (None, system))))))"

section \<open>pychrono_loader.py: the two passes\<close>

text \<open>The loop \<^verbatim>\<open># Create bodies\<close>: each body is registered under its name.\<close>

fun create_bodies ::
    "pyenv \<Rightarrow> json list \<Rightarrow> string \<Rightarrow> (string \<rightharpoonup> nat) \<Rightarrow> ChSystem
     \<Rightarrow> exn + ((string \<rightharpoonup> nat) \<times> ChSystem)" where
  "create_bodies env [] geometry_dir body_map system = Inr (body_map, system)"
| "create_bodies env (body_data # rest) geometry_dir body_map system =
     exn_bind (create_body_from_data env body_data geometry_dir system) (\<lambda>(body, system).
     exn_bind (exn_bind (py_getitem body_data ''name'') as_str) (\<lambda>name.
       create_bodies env rest geometry_dir (body_map(name \<mapsto> body)) system))"

text \<open>The loop \<^verbatim>\<open># Create joints/constraints\<close>.\<close>

fun create_joints :: "json list \<Rightarrow> (string \<rightharpoonup> nat) \<Rightarrow> ChSystem \<Rightarrow> exn + ChSystem" where
  "create_joints [] body_map system = Inr system"
| "create_joints (joint_data # rest) body_map system =
     exn_bind (create_joint_from_data joint_data body_map system) (\<lambda>(joint, system).
       create_joints rest body_map system)"

definition load_model_from_json ::
    "pyenv \<Rightarrow> string \<Rightarrow> string option \<Rightarrow> exn + ChSystem" where
  "load_model_from_json env json_path geometry_dir =
     (if \<not> pychrono_available env then Inl ImportError else
      exn_bind (json_load_file (files env json_path)) (\<lambda>model_data.
        let system = ChSystemNSC_new;
            geometry_dir = (case geometry_dir of
                              None \<Rightarrow> path_join env (path_dirname env json_path) ''geometries''
                            | Some d \<Rightarrow> d)
        in
        exn_bind (exn_bind (py_get model_data ''bodies'' (JArr [])) py_iter) (\<lambda>body_records.
        exn_bind (create_bodies env body_records geometry_dir Map.empty system)
          (\<lambda>(body_map, system).
        exn_bind (exn_bind (py_get model_data ''joints'' (JArr [])) py_iter) (\<lambda>joint_records.
          create_joints joint_records body_map system)))))"

section \<open>CableExport.py\<close>

text \<open>
  A selected entity is a sketch line with the world coordinates of its two end points, or
  something else. The save dialog gives a file name or is cancelled.
\<close>

datatype entity = SketchLine vec3 vec3 | OtherEntity

datatype dialog = DialogOK string | DialogCancel

text \<open>
  What \<^verbatim>\<open>run\<close> leaves behind: a message box and no file, nothing at all, or the
  file with its text and the number of cables in the final message.
\<close>

datatype outcome =
    NoSelectionMessage
  | Cancelled
  | ErrorMessage
  | Exported string string nat

text \<open>The row written for one sketch line: every coordinate divided by 100.\<close>

definition cable_row :: "pyenv \<Rightarrow> vec3 \<Rightarrow> vec3 \<Rightarrow> string" where
  "cable_row env start_point end_point =
     (case (start_point, end_point) of
        ((px, py, pz), (qx, qy, qz)) \<Rightarrow>
          let sx = px / 100.0; sy = py / 100.0; sz = pz / 100.0;
              ex = qx / 100.0; ey = qy / 100.0; ez = qz / 100.0
          in float_str env sx @ '','' @ float_str env sy @ '','' @ float_str env sz @ '','' @
             float_str env ex @ '','' @ float_str env ey @ '','' @ float_str env ez @ [CHR 0x0A])"

text \<open>The loop over the selection: the text written so far and the count.\<close>

fun write_cables :: "pyenv \<Rightarrow> entity list \<Rightarrow> string \<times> nat \<Rightarrow> string \<times> nat" where
  "write_cables env [] acc = acc"
| "write_cables env (SketchLine s e # rest) (txt, n) =
     write_cables env rest (txt @ cable_row env s e, n + 1)"
| "write_cables env (OtherEntity # rest) acc = write_cables env rest acc"

text \<open>
  \<^verbatim>\<open>run\<close>: \<open>can_open\<close> tells whether the chosen file can be opened for writing; the
  bare \<^verbatim>\<open>except\<close> turns a failure into a message box.
\<close>

definition run :: "pyenv \<Rightarrow> entity list \<Rightarrow> dialog \<Rightarrow> bool \<Rightarrow> outcome" where
  "run env sel dlg can_open =
     (if length sel = 0 then NoSelectionMessage
      else case dlg of
        DialogCancel \<Rightarrow> Cancelled
      | DialogOK filename \<Rightarrow>
          if \<not> can_open then ErrorMessage
          else case write_cables env sel
                      (''StartX,StartY,StartZ,EndX,EndY,EndZ'' @ [CHR 0x0A], 0) of
                 (txt, n) \<Rightarrow> Exported filename txt n)"

section \<open>An environment for examples\<close>

text \<open>
  A sample environment on which the definitions can be run: the file system is given,
  paths are joined with a slash, a string prints as itself, and a number with an
  integral value prints with its digits followed by \<^verbatim>\<open>.0\<close>, as Python prints such a
  \<^verbatim>\<open>float\<close> below \<open>10\<^sup>1\<^sup>6\<close>.
\<close>

definition example_env :: "(string \<Rightarrow> file_state) \<Rightarrow> pyenv" where
  "example_env fs =
     \<lparr>files = fs,
      str_of = (\<lambda>v. case v of JStr s \<Rightarrow> s | _ \<Rightarrow> []),
      exn_str = (\<lambda>e. []),
      float_str = (\<lambda>r. (if r < 0 then ''-'' else []) @ show_nat (nat \<lfloor>\<bar>r\<bar>\<rfloor>) @ ''.0''),
      path_join = (\<lambda>d f. d @ ''/'' @ f),
      path_dirname = (\<lambda>p. []),
      pychrono_available = True,
      has_LoadSTLMesh = True\<rparr>"

text \<open>A file system without any file.\<close>

definition no_files :: "string \<Rightarrow> file_state" where
  "no_files p = NoSuchFile"

section \<open>Sequencing\<close>

lemma exn_bind_Inl:
  "exn_bind m f = Inl e \<Longrightarrow> (m = Inl e) \<or> (\<exists>x. m = Inr x \<and> f x = Inl e)"
  by (cases m) auto

lemma exn_bind_Inr_iff:
  "(exn_bind m f = Inr y) = (\<exists>x. m = Inr x \<and> f x = Inr y)"
  by (cases m) auto

section \<open>Properties of the unit conversion\<close>

lemma to_meters_dom:
  "(map_of to_meters u = None) = (u \<notin> {''mm'', ''cm'', ''m'', ''in'', ''ft''})"
  by (simp add: to_meters_def)

lemma to_meters_nonzero: "map_of to_meters u = Some f \<Longrightarrow> f \<noteq> 0"
  by (auto simp: to_meters_def split: if_splits)

text \<open>
  Claim C4. For every number \<open>x\<close> and all units \<open>A\<close>, \<open>B\<close> among mm, cm, m, in and ft,
  converting \<open>x\<close> from \<open>A\<close> to \<open>B\<close> and the result back from \<open>B\<close> to \<open>A\<close> succeeds both
  times and gives \<open>x\<close> again, exactly, over the rationals.
\<close>

theorem convert_units_round_trip:
  assumes "A \<in> {''mm'', ''cm'', ''m'', ''in'', ''ft''}"
    and "B \<in> {''mm'', ''cm'', ''m'', ''in'', ''ft''}"
  shows "\<exists>y. convert_units x A B = Inr y \<and> convert_units y B A = Inr x"
proof -
  from assms obtain fa fb where fa: "map_of to_meters A = Some fa"
    and fb: "map_of to_meters B = Some fb"
    using to_meters_dom by (metis not_Some_eq)
  have nz: "fa \<noteq> 0" "fb \<noteq> 0"
    using fa fb to_meters_nonzero by blast+
  have fwd: "convert_units x A B = Inr (x * fa / fb)"
    by (simp add: convert_units_def fa fb)
  have bwd: "convert_units (x * fa / fb) B A = Inr x"
    using nz by (simp add: convert_units_def fa fb)
  from fwd bwd show ?thesis by blast
qed

theorem convert_units_round_trip_witness:
  "\<exists>y. convert_units 254 ''in'' ''ft'' = Inr y \<and> convert_units y ''ft'' ''in'' = Inr 254"
  using convert_units_round_trip [of "''in''" "''ft''" 254] by simp

lemma to_meters_float_lookup:
  "map_of (map (\<lambda>(u, c). (u, rnd c)) to_meters) u = map_option rnd (map_of to_meters u)"
  by (simp add: to_meters_def)

lemma convert_units_float_supported:
  assumes "map_of to_meters A = Some fa" and "map_of to_meters B = Some fb"
  shows "convert_units_float rnd v A B =
           exn_bind (to_float rnd v) (\<lambda>x. fl_truediv rnd (fl_mul rnd x (rnd fa)) (rnd fb))"
  using assms by (simp add: convert_units_float_def to_meters_float_lookup Let_def)

lemma convert_units_float_unsupported:
  assumes "map_of to_meters A = None \<or> map_of to_meters B = None"
  shows "convert_units_float rnd v A B =
           Inl (ValueError (''Unsupported unit conversion: '' @ A @ '' to '' @ B))"
  using assms
  by (auto simp: convert_units_float_def to_meters_float_lookup Let_def split: option.splits)

lemma fl_truediv_positive:
  assumes "0 < q"
  shows "\<exists>y. fl_truediv rnd x (Finite q) = Inr y"
  using assms by (cases x) auto

lemma to_float_exn: "to_float rnd v = Inl e \<Longrightarrow> e = OverflowError"
  by (cases v) (auto split: if_splits)

text \<open>
  Claim C5, as amended. \<^verbatim>\<open>convert_units\<close> raises \<^verbatim>\<open>ValueError\<close> exactly when one of
  the two unit names is outside mm, cm, m, in, ft. For two units of the table it raises
  \<^verbatim>\<open>OverflowError\<close> when the value is an \<^verbatim>\<open>int\<close> too large for a float and nothing
  otherwise, and then returns the value times the factor of the source unit, divided by
  the factor of the target unit, each step rounded; without rounding that is the value
  times the quotient of the two factors. The factors are positive floats.
\<close>

theorem convert_units_float_raises:
  assumes pos: "\<forall>c \<in> snd ` set to_meters. \<exists>q. rnd c = Finite q \<and> 0 < q"
  shows "((\<exists>msg. convert_units_float rnd v A B = Inl (ValueError msg)) \<longleftrightarrow>
            (A \<notin> {''mm'', ''cm'', ''m'', ''in'', ''ft''} \<or> B \<notin> {''mm'', ''cm'', ''m'', ''in'', ''ft''}))
       \<and> (\<forall>fa fb. map_of to_meters A = Some fa \<and> map_of to_meters B = Some fb \<longrightarrow>
            ((\<exists>n. v = PyInt n \<and> int_too_large n) \<longrightarrow>
               convert_units_float rnd v A B = Inl OverflowError)
          \<and> (\<not> (\<exists>n. v = PyInt n \<and> int_too_large n) \<longrightarrow>
               (\<exists>x y. to_float rnd v = Inr x
                     \<and> fl_truediv rnd (fl_mul rnd x (rnd fa)) (rnd fb) = Inr y
                     \<and> convert_units_float rnd v A B = Inr y))
          \<and> (rnd = Finite \<longrightarrow> (\<forall>x. v = PyFloat (Finite x) \<longrightarrow>
               convert_units_float rnd v A B = Inr (Finite (x * (fa / fb))))))"
proof (intro conjI allI impI)
  show "(\<exists>msg. convert_units_float rnd v A B = Inl (ValueError msg)) \<longleftrightarrow>
            (A \<notin> {''mm'', ''cm'', ''m'', ''in'', ''ft''} \<or> B \<notin> {''mm'', ''cm'', ''m'', ''in'', ''ft''})"
  proof (cases "map_of to_meters A = None \<or> map_of to_meters B = None")
    case True
    then show ?thesis
      using convert_units_float_unsupported [OF True, of rnd v] to_meters_dom by auto
  next
    case False
    then obtain fa fb where f: "map_of to_meters A = Some fa" "map_of to_meters B = Some fb"
      by auto
    have "convert_units_float rnd v A B \<noteq> Inl (ValueError msg)" for msg
    proof
      assume "convert_units_float rnd v A B = Inl (ValueError msg)"
      then have "exn_bind (to_float rnd v) (\<lambda>x. fl_truediv rnd (fl_mul rnd x (rnd fa)) (rnd fb))
                   = Inl (ValueError msg)"
        by (simp add: convert_units_float_supported [OF f])
      moreover from f(2) have "fb \<in> snd ` set to_meters"
        by (metis map_of_SomeD snd_conv image_eqI)
      then obtain q where "rnd fb = Finite q" "0 < q" using pos by blast
      ultimately consider "to_float rnd v = Inl (ValueError msg)"
        | x where "fl_truediv rnd (fl_mul rnd x (rnd fa)) (Finite q) = Inl (ValueError msg)"
        by (auto dest!: exn_bind_Inl)
      then show False
      proof cases
        case 1
        then show False by (auto dest: to_float_exn)
      next
        case 2
        with fl_truediv_positive [OF \<open>0 < q\<close>, of rnd "fl_mul rnd x (rnd fa)"]
        show False by auto
      qed
    qed
    with False show ?thesis using to_meters_dom by auto
  qed
next
  fix fa fb
  assume f: "map_of to_meters A = Some fa \<and> map_of to_meters B = Some fb"
  assume "\<exists>n. v = PyInt n \<and> int_too_large n"
  then show "convert_units_float rnd v A B = Inl OverflowError"
    using f by (auto simp: convert_units_float_supported)
next
  fix fa fb
  assume f: "map_of to_meters A = Some fa \<and> map_of to_meters B = Some fb"
  assume no: "\<not> (\<exists>n. v = PyInt n \<and> int_too_large n)"
  then obtain x where x: "to_float rnd v = Inr x"
    by (cases v) auto
  from f have "fb \<in> snd ` set to_meters"
    by (metis map_of_SomeD snd_conv image_eqI)
  then obtain q where "rnd fb = Finite q" "0 < q" using pos by blast
  then obtain y where "fl_truediv rnd (fl_mul rnd x (rnd fa)) (rnd fb) = Inr y"
    using fl_truediv_positive [of q rnd] by auto
  with x f show "\<exists>x y. to_float rnd v = Inr x
                     \<and> fl_truediv rnd (fl_mul rnd x (rnd fa)) (rnd fb) = Inr y
                     \<and> convert_units_float rnd v A B = Inr y"
    by (auto simp: convert_units_float_supported)
next
  fix fa fb x
  assume f: "map_of to_meters A = Some fa \<and> map_of to_meters B = Some fb"
    and r: "rnd = Finite" and v: "v = PyFloat (Finite x)"
  from f have "fb \<noteq> 0" using to_meters_nonzero by blast
  with f r v show "convert_units_float rnd v A B = Inr (Finite (x * (fa / fb)))"
    by (simp add: convert_units_float_supported)
qed

lemma huge_int_overflows:
  "convert_units_float rnd (PyInt (10 ^ 400)) ''mm'' ''mm'' = Inl OverflowError"
proof -
  have "int_too_large (10 ^ 400)"
    by (simp add: int_too_large_def)
  moreover have "map_of to_meters ''mm'' = Some 0.001"
    by (simp add: to_meters_def)
  ultimately show ?thesis
    by (simp add: convert_units_float_supported del: power_numeral)
qed

text \<open>
  Claim C5, as stated, fails: with both units in the table (mm to mm) the \<^verbatim>\<open>int\<close>
  \<open>10\<^sup>4\<^sup>0\<^sup>0\<close> makes \<^verbatim>\<open>convert_units\<close> raise \<^verbatim>\<open>OverflowError\<close>, whatever the rounding.
\<close>

theorem convert_units_overflow_on_huge_int:
  "convert_units_float Finite (PyInt (10 ^ 400)) ''mm'' ''mm'' = Inl OverflowError"
  by (rule huge_int_overflows)

theorem convert_units_float_raises_witness:
  "convert_units_float Finite (PyFloat (Finite 5)) ''cm'' ''mm'' = Inr (Finite 50)
   \<and> convert_units_float Finite (PyInt 5) ''cm'' ''yd''
       = Inl (ValueError ''Unsupported unit conversion: cm to yd'')"
proof -
  have pos: "\<forall>c \<in> snd ` set to_meters. \<exists>q. Finite c = Finite q \<and> 0 < q"
    by (simp add: to_meters_def)
  note t = convert_units_float_raises [OF pos]
  have a: "map_of to_meters ''cm'' = Some 0.01 \<and> map_of to_meters ''mm'' = Some 0.001"
    by (simp add: to_meters_def)
  have "convert_units_float Finite (PyFloat (Finite 5)) ''cm'' ''mm''
          = Inr (Finite (5 * (0.01 / 0.001)))"
    using t [of "PyFloat (Finite 5)" "''cm''" "''mm''"] a by blast
  moreover have "\<exists>msg. convert_units_float Finite (PyInt 5) ''cm'' ''yd'' = Inl (ValueError msg)"
    using t [of "PyInt 5" "''cm''" "''yd''"] by simp
  then have "convert_units_float Finite (PyInt 5) ''cm'' ''yd''
       = Inl (ValueError ''Unsupported unit conversion: cm to yd'')"
    by (auto simp: convert_units_float_def to_meters_float_lookup to_meters_def Let_def)
  ultimately show ?thesis by simp
qed

section \<open>Properties of the validator\<close>

text \<open>On an object the loop over the required fields stops at the first missing key.\<close>

lemma check_required_obj:
  "check_required fs (JObj kvs) =
     Inr (case find (\<lambda>f. map_of kvs f = None) fs of
            None \<Rightarrow> None
          | Some f \<Rightarrow> Some (False, missing_field_message f))"
  by (induction fs) auto

lemma py_in_exn: "py_in k v = Inl e \<Longrightarrow> e = TypeError"
  by (cases v) auto

lemma py_getitem_exn: "py_getitem v k = Inl e \<Longrightarrow> e = KeyError \<or> e = TypeError"
  by (cases v) (auto split: option.splits)

lemma py_get_exn: "py_get v k d = Inl e \<Longrightarrow> e = AttributeError"
  by (cases v) (auto split: option.splits)

lemma check_required_exn: "check_required fs d = Inl e \<Longrightarrow> is_Exception e"
  by (induction fs) (auto dest!: exn_bind_Inl py_in_exn split: if_splits)

lemma check_bodies_exn: "check_bodies env i bs = Inl e \<Longrightarrow> is_Exception e"
  by (induction bs arbitrary: i)
    (auto dest!: exn_bind_Inl py_in_exn py_getitem_exn split: if_splits)

lemma check_joints_exn: "check_joints env i js = Inl e \<Longrightarrow> is_Exception e"
  by (induction js arbitrary: i)
    (auto dest!: exn_bind_Inl py_in_exn py_get_exn split: if_splits)

lemma validate_data_exn: "validate_data env d = Inl e \<Longrightarrow> is_Exception e"
  unfolding validate_data_def
  by (auto dest!: exn_bind_Inl py_getitem_exn check_required_exn check_bodies_exn
        check_joints_exn
      split: option.splits json.splits)

lemma json_load_file_exn: "json_load_file f = Inl e \<Longrightarrow> is_Exception e"
  by (cases f) auto

text \<open>
  Claim C7. When the file holds a JSON object that lacks one of the keys model_name,
  bodies, joints, metadata, validation fails with the message that names the first
  missing key in that order, whatever else the object holds.
\<close>

theorem validate_missing_field:
  assumes "files env json_path = Document (JObj kvs)"
    and "find (\<lambda>f. map_of kvs f = None) required_fields = Some field"
  shows "validate_json_export env json_path =
           Inr (False, ''Missing required field: '' @ field)"
  using assms
  by (simp add: validate_json_export_def validate_data_def check_required_obj
      missing_field_message_def)

theorem validate_missing_field_witness:
  "validate_json_export
     (example_env (\<lambda>p. Document (JObj [(''model_name'', JStr ''arm''), (''joints'', JNum 3)])))
     ''arm.json''
   = Inr (False, ''Missing required field: bodies'')"
  using validate_missing_field
    [of "example_env (\<lambda>p. Document (JObj [(''model_name'', JStr ''arm''), (''joints'', JNum 3)]))"
        "''arm.json''" "[(''model_name'', JStr ''arm''), (''joints'', JNum 3)]" "''bodies''"]
  by (simp add: example_env_def required_fields_def)

text \<open>
  Claim C8. When the file holds a JSON object with all four required keys whose bodies
  value is not a list, validation fails with the message "bodies must be a list", and
  no missing-field message is that text.
\<close>

theorem validate_bodies_not_list:
  assumes "files env json_path = Document (JObj kvs)"
    and "\<forall>f \<in> set required_fields. map_of kvs f \<noteq> None"
    and "map_of kvs ''bodies'' = Some b"
    and "\<forall>bs. b \<noteq> JArr bs"
  shows "validate_json_export env json_path = Inr (False, ''bodies must be a list'')
         \<and> (\<forall>f. missing_field_message f \<noteq> ''bodies must be a list'')"
proof -
  from assms(2) have "find (\<lambda>f. map_of kvs f = None) required_fields = None"
    by (simp add: find_None_iff)
  then have "validate_data env (JObj kvs) = Inr (False, ''bodies must be a list'')"
    using assms(3,4)
    by (cases b) (simp_all add: validate_data_def check_required_obj)
  then show ?thesis
    using assms(1) by (simp add: validate_json_export_def missing_field_message_def)
qed

theorem validate_bodies_not_list_witness:
  "validate_json_export
     (example_env (\<lambda>p. Document (JObj [(''model_name'', JStr ''arm''), (''bodies'', JObj []),
                                        (''joints'', JArr []), (''metadata'', JObj [])])))
     ''arm.json''
   = Inr (False, ''bodies must be a list'')"
  using validate_bodies_not_list
    [of "example_env (\<lambda>p. Document (JObj [(''model_name'', JStr ''arm''), (''bodies'', JObj []),
                                            (''joints'', JArr []), (''metadata'', JObj [])]))"
        "''arm.json''"
        "[(''model_name'', JStr ''arm''), (''bodies'', JObj []),
          (''joints'', JArr []), (''metadata'', JObj [])]"
        "JObj []"]
  by (simp add: example_env_def required_fields_def)

text \<open>
  Claim C10. Whatever the path holds (no file, an unreadable file, text that is not
  JSON, a document of any shape), \<^verbatim>\<open>validate_json_export\<close> returns a pair of a truth
  value and a message: every exception the body can raise is caught by one of the three
  handlers.
\<close>

theorem validate_json_export_total:
  "\<exists>ok msg. validate_json_export env json_path = Inr (ok, msg)"
proof (cases "exn_bind (json_load_file (files env json_path)) (validate_data env)")
  case (Inl e)
  then have "is_Exception e"
    by (auto dest!: exn_bind_Inl json_load_file_exn validate_data_exn)
  with Inl show ?thesis
    by (auto simp: validate_json_export_def)
next
  case (Inr r)
  then show ?thesis
    by (cases r) (simp add: validate_json_export_def)
qed

text \<open>
  A top-level \<^verbatim>\<open>null\<close>, truth value or number has no keys to test: the first
  \<^verbatim>\<open>in\<close> raises, and the last handler reports the exception.
\<close>

lemma validate_scalar_document:
  assumes "files env json_path = Document d"
    and "d = JNull \<or> (\<exists>b. d = JBool b) \<or> (\<exists>r. d = JNum r)"
  shows "validate_json_export env json_path =
           Inr (False, ''Validation error: '' @ exn_str env TypeError)"
  using assms
  by (auto simp: validate_json_export_def validate_data_def required_fields_def)

section \<open>Properties of the body pass\<close>

lemma set_mass_properties_default:
  assumes "map_of kvs ''mass_properties'' = None \<or> map_of kvs ''mass_properties'' = Some (JObj [])"
  shows "set_mass_properties (JObj kvs) body = Inr body"
  using assms by (auto simp: set_mass_properties_def)

lemma apply_transform_keeps:
  "apply_transform body_data body = Inr body' \<Longrightarrow>
     body_mass body' = body_mass body \<and> body_inertia_xx body' = body_inertia_xx body
     \<and> body_name body' = body_name body"
  unfolding apply_transform_def
  by (auto simp: exn_bind_Inr_iff split: if_splits)

lemma load_geometry_keeps:
  "load_geometry env body_data gd body = Inr body' \<Longrightarrow>
     body_mass body' = body_mass body \<and> body_inertia_xx body' = body_inertia_xx body
     \<and> body_name body' = body_name body \<and> body_pos body' = body_pos body"
  unfolding load_geometry_def
  by (auto simp: Let_def exn_bind_Inr_iff split: if_splits)

lemma as_str_Inr: "(as_str v = Inr s) = (v = JStr s)"
  by (cases v) auto

lemma create_body_from_data_blocks:
  assumes "create_body_from_data env body_data gd sys = Inr (h, s')"
  shows "\<exists>name b1 b2 b3 b.
           py_getitem body_data ''name'' = Inr (JStr name)
         \<and> set_mass_properties body_data (ChBody_new\<lparr>body_name := name\<rparr>) = Inr b1
         \<and> apply_transform body_data b1 = Inr b2
         \<and> load_geometry env body_data gd b2 = Inr b3
         \<and> (b = b3 \<or> b = b3\<lparr>body_fixed := True\<rparr>)
         \<and> h = length (bodies sys)
         \<and> s' = sys\<lparr>bodies := bodies sys @ [b]\<rparr>"
proof -
  from assms obtain name b1 b2 b3 isf where
    n: "py_getitem body_data ''name'' = Inr (JStr name)"
    and b: "set_mass_properties body_data (ChBody_new\<lparr>body_name := name\<rparr>) = Inr b1"
       "apply_transform body_data b1 = Inr b2"
       "load_geometry env body_data gd b2 = Inr b3"
    and r: "h = length (bodies sys)"
       "s' = sys\<lparr>bodies := bodies sys @ [if truthy isf then b3\<lparr>body_fixed := True\<rparr> else b3]\<rparr>"
    unfolding create_body_from_data_def
    by (auto simp: Let_def exn_bind_Inr_iff as_str_Inr)
  define b where "b = (if truthy isf then b3\<lparr>body_fixed := True\<rparr> else b3)"
  have "b = b3 \<or> b = b3\<lparr>body_fixed := True\<rparr>"
    by (simp add: b_def)
  moreover have "s' = sys\<lparr>bodies := bodies sys @ [b]\<rparr>"
    using r(2) by (simp only: b_def)
  ultimately show ?thesis
    using n b r(1) by blast
qed

lemma create_body_from_data_result:
  assumes "create_body_from_data env (JObj kvs) gd sys = Inr (h, s')"
  shows "\<exists>name b. map_of kvs ''name'' = Some (JStr name) \<and> body_name b = name
           \<and> h = length (bodies sys) \<and> s' = sys\<lparr>bodies := bodies sys @ [b]\<rparr>"
proof -
  from create_body_from_data_blocks [OF assms] obtain name b1 b2 b3 b where
    n: "py_getitem (JObj kvs) ''name'' = Inr (JStr name)"
    and b1: "set_mass_properties (JObj kvs) (ChBody_new\<lparr>body_name := name\<rparr>) = Inr b1"
    and b2: "apply_transform (JObj kvs) b1 = Inr b2"
    and b3: "load_geometry env (JObj kvs) gd b2 = Inr b3"
    and b: "b = b3 \<or> b = b3\<lparr>body_fixed := True\<rparr>"
    and r: "h = length (bodies sys)" "s' = sys\<lparr>bodies := bodies sys @ [b]\<rparr>"
    by blast
  have "body_name b1 = name"
    using b1 unfolding set_mass_properties_def
    by (auto simp: Let_def exn_bind_Inr_iff split: if_splits)
  then have "body_name b = name"
    using apply_transform_keeps [OF b2] load_geometry_keeps [OF b3] b by auto
  moreover from n have "map_of kvs ''name'' = Some (JStr name)"
    by (auto split: option.splits)
  ultimately show ?thesis using r by blast
qed

text \<open>
  Claim C3. For a body record whose mass_properties key is absent or holds the empty
  object, every body the loader makes from it has the mass 1 and the inertia diagonal
  (1, 1, 1); and it does make one when the record has a name, a transform that is
  absent or a translation with three numbers, and a geometry file that is absent or a
  file name.
\<close>

theorem body_without_mass_properties:
  assumes "map_of kvs ''mass_properties'' = None \<or> map_of kvs ''mass_properties'' = Some (JObj [])"
  shows "(\<forall>h s'. create_body_from_data env (JObj kvs) gd sys = Inr (h, s') \<longrightarrow>
            (\<exists>b. h = length (bodies sys) \<and> s' = sys\<lparr>bodies := bodies sys @ [b]\<rparr>
                 \<and> body_mass b = 1 \<and> body_inertia_xx b = (1, 1, 1)))
       \<and> ((\<exists>n. map_of kvs ''name'' = Some (JStr n))
          \<and> (map_of kvs ''transform'' = None
               \<or> (\<exists>tx ty tz. map_of kvs ''transform'' =
                     Some (JObj [(''translation'',
                       JObj [(''x'', JNum tx), (''y'', JNum ty), (''z'', JNum tz)])])))
          \<and> (map_of kvs ''geometry_file'' = None
               \<or> (\<exists>f. map_of kvs ''geometry_file'' = Some (JStr f)))
          \<longrightarrow> (\<exists>h s'. create_body_from_data env (JObj kvs) gd sys = Inr (h, s')))"
proof (intro conjI allI impI)
  fix h s'
  assume ok: "create_body_from_data env (JObj kvs) gd sys = Inr (h, s')"
  from create_body_from_data_blocks [OF ok] obtain name b1 b2 b3 b where
    b1: "set_mass_properties (JObj kvs) (ChBody_new\<lparr>body_name := name\<rparr>) = Inr b1"
    and b2: "apply_transform (JObj kvs) b1 = Inr b2"
    and b3: "load_geometry env (JObj kvs) gd b2 = Inr b3"
    and b: "b = b3 \<or> b = b3\<lparr>body_fixed := True\<rparr>"
    and r: "h = length (bodies sys)" "s' = sys\<lparr>bodies := bodies sys @ [b]\<rparr>"
    by blast
  from b1 have "b1 = ChBody_new\<lparr>body_name := name\<rparr>"
    by (simp add: set_mass_properties_default [OF assms])
  then have "body_mass b1 = 1 \<and> body_inertia_xx b1 = (1, 1, 1)"
    by (simp add: ChBody_new_def)
  then have "body_mass b = 1 \<and> body_inertia_xx b = (1, 1, 1)"
    using apply_transform_keeps [OF b2] load_geometry_keeps [OF b3] b by auto
  with r show "\<exists>b. h = length (bodies sys) \<and> s' = sys\<lparr>bodies := bodies sys @ [b]\<rparr>
                 \<and> body_mass b = 1 \<and> body_inertia_xx b = (1, 1, 1)"
    by blast
next
  assume wf: "(\<exists>n. map_of kvs ''name'' = Some (JStr n))
          \<and> (map_of kvs ''transform'' = None
               \<or> (\<exists>tx ty tz. map_of kvs ''transform'' =
                     Some (JObj [(''translation'',
                       JObj [(''x'', JNum tx), (''y'', JNum ty), (''z'', JNum tz)])])))
          \<and> (map_of kvs ''geometry_file'' = None
               \<or> (\<exists>f. map_of kvs ''geometry_file'' = Some (JStr f)))"
  then obtain n where n: "map_of kvs ''name'' = Some (JStr n)" by blast
  have m: "set_mass_properties (JObj kvs) b = Inr b" for b
    by (rule set_mass_properties_default [OF assms])
  from wf have "\<exists>b'. apply_transform (JObj kvs) b = Inr b'" for b
    by (auto simp: apply_transform_def mm_vector_def div_1000_def)
  moreover from wf have "\<exists>b'. load_geometry env (JObj kvs) gd b = Inr b'" for b
    by (auto simp: load_geometry_def Let_def)
  ultimately show "\<exists>h s'. create_body_from_data env (JObj kvs) gd sys = Inr (h, s')"
    using n m
    by (simp add: create_body_from_data_def Let_def exn_bind_Inr_iff split: option.splits)
      (metis)
qed

theorem body_without_mass_properties_witness:
  "\<exists>b. create_body_from_data (example_env (\<lambda>p. NoSuchFile))
          (JObj [(''name'', JStr ''link''), (''mass_properties'', JObj [])]) ''geometries''
          ChSystemNSC_new
        = Inr (0, ChSystemNSC_new\<lparr>bodies := [b]\<rparr>)
      \<and> body_mass b = 1 \<and> body_inertia_xx b = (1, 1, 1)"
proof -
  let ?kvs = "[(''name'', JStr ''link''), (''mass_properties'', JObj [])]"
  let ?env = "example_env (\<lambda>p. NoSuchFile)"
  have mp: "map_of ?kvs ''mass_properties'' = None \<or> map_of ?kvs ''mass_properties'' = Some (JObj [])"
    by simp
  note t = body_without_mass_properties [OF mp, of ?env "''geometries''" ChSystemNSC_new]
  from t obtain h s' where
    r: "create_body_from_data ?env (JObj ?kvs) ''geometries'' ChSystemNSC_new = Inr (h, s')"
    by auto
  with t obtain b where "h = length (bodies ChSystemNSC_new)"
    "s' = ChSystemNSC_new\<lparr>bodies := bodies ChSystemNSC_new @ [b]\<rparr>"
    "body_mass b = 1" "body_inertia_xx b = (1, 1, 1)"
    by blast
  with r show ?thesis
    by (auto simp: ChSystemNSC_new_def)
qed

lemma set_mass_properties_com:
  assumes "set_mass_properties (JObj kvs) b0 = Inr b1"
    and "map_of kvs ''mass_properties'' = Some (JObj mp)"
    and "map_of mp ''center_of_mass'' = Some com"
    and "truthy com"
  shows "mm_vector com = Inr (body_pos b1)"
proof -
  from assms(3) have "mp \<noteq> []" by auto
  with assms show ?thesis
    unfolding set_mass_properties_def
    by (auto simp: Let_def exn_bind_Inr_iff split: if_splits)
qed

lemma apply_transform_translation:
  assumes "apply_transform (JObj kvs) b1 = Inr b2"
    and "map_of kvs ''transform'' = Some (JObj tr)"
    and "map_of tr ''translation'' = Some trn"
    and "truthy trn"
  shows "mm_vector trn = Inr (body_pos b2)"
proof -
  from assms(3) have "tr \<noteq> []" by auto
  with assms show ?thesis
    unfolding apply_transform_def
    by (auto simp: exn_bind_Inr_iff)
qed

lemma apply_transform_no_translation:
  assumes "apply_transform (JObj kvs) b1 = Inr b2"
    and "map_of kvs ''transform'' = None
         \<or> (\<exists>tr. map_of kvs ''transform'' = Some (JObj tr) \<and> map_of tr ''translation'' = None)"
  shows "b2 = b1"
  using assms unfolding apply_transform_def
  by (auto simp: exn_bind_Inr_iff split: if_splits)

text \<open>
  Claim C2, as amended. When the loader makes a body from a record, a non-empty
  transform.translation gives the position (each coordinate divided by 1000), whether
  or not a centre of mass is present; the centre of mass (each coordinate divided by
  1000) gives the position when the record has no transform.translation. The two are
  never combined.
\<close>

theorem body_position_precedence:
  assumes ok: "create_body_from_data env (JObj kvs) gd sys = Inr (h, s')"
  shows "(\<forall>tr trn. map_of kvs ''transform'' = Some (JObj tr) \<and> map_of tr ''translation'' = Some trn
            \<and> truthy trn
          \<longrightarrow> mm_vector trn = Inr (body_pos (bodies s' ! h)))
       \<and> (\<forall>mp com.
            (map_of kvs ''transform'' = None
              \<or> (\<exists>tr. map_of kvs ''transform'' = Some (JObj tr) \<and> map_of tr ''translation'' = None))
            \<and> map_of kvs ''mass_properties'' = Some (JObj mp)
            \<and> map_of mp ''center_of_mass'' = Some com \<and> truthy com
          \<longrightarrow> mm_vector com = Inr (body_pos (bodies s' ! h)))"
proof -
  from create_body_from_data_blocks [OF ok] obtain name b1 b2 b3 b where
    b1: "set_mass_properties (JObj kvs) (ChBody_new\<lparr>body_name := name\<rparr>) = Inr b1"
    and b2: "apply_transform (JObj kvs) b1 = Inr b2"
    and b3: "load_geometry env (JObj kvs) gd b2 = Inr b3"
    and b: "b = b3 \<or> b = b3\<lparr>body_fixed := True\<rparr>"
    and r: "h = length (bodies sys)" "s' = sys\<lparr>bodies := bodies sys @ [b]\<rparr>"
    by blast
  from r have "bodies s' ! h = b" by simp
  moreover have "body_pos b = body_pos b2"
    using load_geometry_keeps [OF b3] b by auto
  ultimately have pos: "body_pos (bodies s' ! h) = body_pos b2" by simp
  show ?thesis
  proof (intro conjI allI impI)
    fix tr trn
    assume "map_of kvs ''transform'' = Some (JObj tr) \<and> map_of tr ''translation'' = Some trn
            \<and> truthy trn"
    then show "mm_vector trn = Inr (body_pos (bodies s' ! h))"
      using apply_transform_translation [OF b2] pos by simp
  next
    fix mp com
    assume a: "(map_of kvs ''transform'' = None
              \<or> (\<exists>tr. map_of kvs ''transform'' = Some (JObj tr) \<and> map_of tr ''translation'' = None))
            \<and> map_of kvs ''mass_properties'' = Some (JObj mp)
            \<and> map_of mp ''center_of_mass'' = Some com \<and> truthy com"
    then have "b2 = b1"
      using apply_transform_no_translation [OF b2] by blast
    moreover from a have "mm_vector com = Inr (body_pos b1)"
      using set_mass_properties_com [OF b1] by blast
    ultimately show "mm_vector com = Inr (body_pos (bodies s' ! h))"
      using pos by simp
  qed
qed

lemma arm_record_loads:
  "create_body_from_data (example_env no_files)
     (JObj [(''name'', JStr ''arm''),
            (''mass_properties'',
               JObj [(''center_of_mass'', JObj [(''x'', JNum 1000), (''y'', JNum 0), (''z'', JNum 0)])]),
            (''transform'',
               JObj [(''translation'', JObj [(''x'', JNum 0), (''y'', JNum 2000), (''z'', JNum 0)])])])
     ''geometries'' ChSystemNSC_new
   = Inr (0, ChSystemNSC_new\<lparr>bodies := [ChBody_new\<lparr>body_name := ''arm'', body_pos := (0, 2, 0)\<rparr>]\<rparr>)
   \<and> mm_vector (JObj [(''x'', JNum 1000), (''y'', JNum 0), (''z'', JNum 0)]) = Inr (1, 0, 0)"
  by (simp add: create_body_from_data_def set_mass_properties_def apply_transform_def
      load_geometry_def mm_vector_def div_1000_def ChSystemNSC_new_def ChBody_new_def Let_def)

text \<open>
  Claim C2, as stated, fails: a record with the centre of mass (1000, 0, 0) and the
  translation (0, 2000, 0) is loaded at (0, 2, 0), the translation, and not at
  (1, 0, 0), the centre of mass.
\<close>

theorem center_of_mass_overridden_by_translation:
  "create_body_from_data (example_env no_files)
     (JObj [(''name'', JStr ''arm''),
            (''mass_properties'',
               JObj [(''center_of_mass'', JObj [(''x'', JNum 1000), (''y'', JNum 0), (''z'', JNum 0)])]),
            (''transform'',
               JObj [(''translation'', JObj [(''x'', JNum 0), (''y'', JNum 2000), (''z'', JNum 0)])])])
     ''geometries'' ChSystemNSC_new
   = Inr (0, ChSystemNSC_new\<lparr>bodies := [ChBody_new\<lparr>body_name := ''arm'', body_pos := (0, 2, 0)\<rparr>]\<rparr>)
   \<and> mm_vector (JObj [(''x'', JNum 1000), (''y'', JNum 0), (''z'', JNum 0)]) = Inr (1, 0, 0)"
  by (rule arm_record_loads)

theorem body_position_precedence_witness:
  "mm_vector (JObj [(''x'', JNum 0), (''y'', JNum 2000), (''z'', JNum 0)])
   = Inr (body_pos (bodies (ChSystemNSC_new\<lparr>bodies :=
        [ChBody_new\<lparr>body_name := ''arm'', body_pos := (0, 2, 0)\<rparr>]\<rparr>) ! 0))"
proof -
  let ?trn = "JObj [(''x'', JNum 0), (''y'', JNum 2000), (''z'', JNum 0)]"
  let ?tr = "[(''translation'', ?trn)]"
  let ?kvs = "[(''name'', JStr ''arm''),
            (''mass_properties'',
               JObj [(''center_of_mass'', JObj [(''x'', JNum 1000), (''y'', JNum 0), (''z'', JNum 0)])]),
            (''transform'', JObj ?tr)]"
  have run: "create_body_from_data (example_env no_files) (JObj ?kvs) ''geometries'' ChSystemNSC_new
      = Inr (0, ChSystemNSC_new\<lparr>bodies := [ChBody_new\<lparr>body_name := ''arm'', body_pos := (0, 2, 0)\<rparr>]\<rparr>)"
    using arm_record_loads by simp
  have "map_of ?kvs ''transform'' = Some (JObj ?tr) \<and> map_of ?tr ''translation'' = Some ?trn \<and> truthy ?trn"
    by simp
  with body_position_precedence [OF run] show ?thesis by blast
qed

section \<open>Properties of the joint pass\<close>

lemma create_joints_append:
  "create_joints (xs @ ys) body_map system =
     exn_bind (create_joints xs body_map system) (\<lambda>s. create_joints ys body_map s)"
proof (induction xs arbitrary: system)
  case Nil
  show ?case by simp
next
  case (Cons x xs)
  show ?case
    by (cases "create_joint_from_data x body_map system") (auto simp: Cons.IH)
qed

lemma create_joint_skipped:
  assumes "map_of j ''body_one'' = None \<or> map_of j ''body_two'' = None
     \<or> (\<exists>n1 n2. map_of j ''body_one'' = Some (JStr n1) \<and> map_of j ''body_two'' = Some (JStr n2)
          \<and> (body_map n1 = None \<or> body_map n2 = None))"
  shows "create_joint_from_data (JObj j) body_map system = Inr (None, system)"
  using assms unfolding create_joint_from_data_def
  by (auto split: option.splits)

text \<open>
  Claim C6. A joint record whose body_one or body_two is absent, or whose two names
  do not both belong to registered bodies, makes no joint, leaves the system as it
  was and raises nothing; the joint pass over a list with such a record is the joint
  pass over the list without it, so the other joints are processed all the same.
\<close>

theorem unresolved_joint_is_skipped:
  assumes "map_of j ''body_one'' = None \<or> map_of j ''body_two'' = None
     \<or> (\<exists>n1 n2. map_of j ''body_one'' = Some (JStr n1) \<and> map_of j ''body_two'' = Some (JStr n2)
          \<and> (body_map n1 = None \<or> body_map n2 = None))"
  shows "create_joint_from_data (JObj j) body_map system = Inr (None, system)
       \<and> create_joints (before @ JObj j # after) body_map system
           = create_joints (before @ after) body_map system"
proof -
  have skip: "create_joint_from_data (JObj j) body_map s = Inr (None, s)" for s
    using assms by (rule create_joint_skipped)
  have "create_joints (JObj j # after) body_map s = create_joints after body_map s" for s
    by (simp add: skip)
  then show ?thesis
    by (simp add: create_joints_append skip del: create_joints.simps)
qed

theorem unresolved_joint_is_skipped_witness:
  "create_joints
     [JObj [(''name'', JStr ''pin''), (''type'', JStr ''RevoluteJointType''),
            (''body_one'', JStr ''A''), (''body_two'', JStr ''ghost'')]]
     (Map.empty(''A'' \<mapsto> 0)) ChSystemNSC_new
   = Inr ChSystemNSC_new"
  using unresolved_joint_is_skipped [of "[(''name'', JStr ''pin''), (''type'', JStr ''RevoluteJointType''),
            (''body_one'', JStr ''A''), (''body_two'', JStr ''ghost'')]"
      "Map.empty(''A'' \<mapsto> 0)" ChSystemNSC_new "[]" "[]"]
  by simp

lemma joint_class_revolute:
  "joint_class (JStr ''RevoluteJointType'') = Inr (Some ChLinkLockRevolute)"
  by (simp add: joint_class_def in_or_in_def)

lemma mm_vector_xyz:
  "mm_vector (JObj [(''x'', JNum ox), (''y'', JNum oy), (''z'', JNum oz)])
     = Inr (ox / 1000, oy / 1000, oz / 1000)"
  by (simp add: mm_vector_def div_1000_def)

lemma create_bodies_two:
  assumes "create_bodies env [JObj ka, JObj kb] gd Map.empty sys = Inr (bm, s1)"
  shows "\<exists>na nb a b. map_of ka ''name'' = Some (JStr na) \<and> map_of kb ''name'' = Some (JStr nb)
           \<and> body_name a = na \<and> body_name b = nb
           \<and> s1 = sys\<lparr>bodies := bodies sys @ [a, b]\<rparr>
           \<and> bm = Map.empty(na \<mapsto> length (bodies sys), nb \<mapsto> Suc (length (bodies sys)))"
proof -
  from assms obtain h1 sa where
    a: "create_body_from_data env (JObj ka) gd sys = Inr (h1, sa)"
    by (auto simp: exn_bind_Inr_iff)
  from create_body_from_data_result [OF a] obtain na a where
    na: "map_of ka ''name'' = Some (JStr na)" "body_name a = na"
      "h1 = length (bodies sys)" "sa = sys\<lparr>bodies := bodies sys @ [a]\<rparr>"
    by blast
  from assms a na obtain h2 sb where
    b: "create_body_from_data env (JObj kb) gd sa = Inr (h2, sb)"
    by (auto simp: exn_bind_Inr_iff)
  from create_body_from_data_result [OF b] obtain nb b where
    nb: "map_of kb ''name'' = Some (JStr nb)" "body_name b = nb"
      "h2 = length (bodies sa)" "sb = sa\<lparr>bodies := bodies sa @ [b]\<rparr>"
    by blast
  from assms a b na(1) nb(1) have "bm = Map.empty(na \<mapsto> h1, nb \<mapsto> h2)" "s1 = sb"
    by auto
  with na nb show ?thesis
    by (intro exI [of _ na] exI [of _ nb] exI [of _ a] exI [of _ b]) simp
qed

text \<open>
  Claim C1. A document with exactly the two body records named A and B, both of which
  load, and one joint record of type RevoluteJointType from A to B is loaded into a
  system with the two bodies and exactly one joint: a revolute joint between the body
  registered under A and the body registered under B, at the origin of the record
  with each coordinate divided by 1000.
\<close>

theorem revolute_joint_between_two_bodies:
  assumes avail: "pychrono_available env"
    and doc: "files env json_path = Document (JObj doc)"
    and bs: "map_of doc ''bodies'' = Some (JArr [JObj ka, JObj kb])"
    and js: "map_of doc ''joints'' = Some (JArr [JObj j])"
    and na: "map_of ka ''name'' = Some (JStr ''A'')"
    and nb: "map_of kb ''name'' = Some (JStr ''B'')"
    and loads: "create_bodies env [JObj ka, JObj kb]
                  (case geometry_dir of
                     None \<Rightarrow> path_join env (path_dirname env json_path) ''geometries''
                   | Some d \<Rightarrow> d)
                  Map.empty ChSystemNSC_new = Inr (bm, s1)"
    and jt: "map_of j ''type'' = Some (JStr ''RevoluteJointType'')"
    and j1: "map_of j ''body_one'' = Some (JStr ''A'')"
    and j2: "map_of j ''body_two'' = Some (JStr ''B'')"
    and jo: "map_of j ''origin'' = Some (JObj [(''x'', JNum ox), (''y'', JNum oy), (''z'', JNum oz)])"
    and jn: "map_of j ''name'' = Some (JStr jname)"
  shows "\<exists>a b. load_model_from_json env json_path geometry_dir =
            Inr \<lparr>g_acc = (0, - 9.81, 0), bodies = [a, b],
                 links = [\<lparr>link_class = ChLinkLockRevolute, link_body_one = 0,
                           link_body_two = 1,
                           link_origin = (ox / 1000, oy / 1000, oz / 1000),
                           link_name = jname\<rparr>]\<rparr>
          \<and> body_name a = ''A'' \<and> body_name b = ''B''"
proof -
  from create_bodies_two [OF loads] na nb obtain a b where
    ab: "body_name a = ''A''" "body_name b = ''B''"
    and s1: "s1 = ChSystemNSC_new\<lparr>bodies := bodies ChSystemNSC_new @ [a, b]\<rparr>"
    and bm: "bm = Map.empty(''A'' \<mapsto> length (bodies ChSystemNSC_new),
                           ''B'' \<mapsto> Suc (length (bodies ChSystemNSC_new)))"
    by auto
  have bmA: "bm ''A'' = Some 0" and bmB: "bm ''B'' = Some 1"
    by (simp_all add: bm ChSystemNSC_new_def)
  have joint: "create_joint_from_data (JObj j) bm s1 =
      Inr (Some \<lparr>link_class = ChLinkLockRevolute, link_body_one = 0, link_body_two = 1,
                 link_origin = (ox / 1000, oy / 1000, oz / 1000), link_name = jname\<rparr>,
           s1\<lparr>links := links s1 @ [\<lparr>link_class = ChLinkLockRevolute, link_body_one = 0,
                 link_body_two = 1, link_origin = (ox / 1000, oy / 1000, oz / 1000),
                 link_name = jname\<rparr>]\<rparr>)"
    unfolding create_joint_from_data_def
    by (simp add: jt j1 j2 jo jn bmA bmB mm_vector_xyz joint_class_revolute Let_def)
  have "load_model_from_json env json_path geometry_dir =
          create_joints [JObj j] bm s1"
    unfolding load_model_from_json_def
    by (simp add: avail doc bs js loads Let_def del: create_bodies.simps create_joints.simps)
  also have "\<dots> = Inr (s1\<lparr>links := links s1 @ [\<lparr>link_class = ChLinkLockRevolute,
                 link_body_one = 0, link_body_two = 1,
                 link_origin = (ox / 1000, oy / 1000, oz / 1000), link_name = jname\<rparr>]\<rparr>)"
    by (simp add: joint)
  finally show ?thesis
    using ab by (simp add: s1 ChSystemNSC_new_def)
qed

theorem revolute_joint_between_two_bodies_witness:
  "\<exists>a b. load_model_from_json
      (example_env (\<lambda>p. if p = ''model.json'' then
         Document (JObj
           [(''model_name'', JStr ''pendulum''),
            (''bodies'', JArr [JObj [(''name'', JStr ''A'')], JObj [(''name'', JStr ''B'')]]),
            (''joints'', JArr [JObj
               [(''name'', JStr ''pin''), (''type'', JStr ''RevoluteJointType''),
                (''body_one'', JStr ''A''), (''body_two'', JStr ''B''),
                (''origin'', JObj [(''x'', JNum 1000), (''y'', JNum 2000), (''z'', JNum 3000)])]])])
         else NoSuchFile))
      ''model.json'' None
    = Inr \<lparr>g_acc = (0, - 9.81, 0), bodies = [a, b],
           links = [\<lparr>link_class = ChLinkLockRevolute, link_body_one = 0, link_body_two = 1,
                     link_origin = (1, 2, 3), link_name = ''pin''\<rparr>]\<rparr>
    \<and> body_name a = ''A'' \<and> body_name b = ''B''"
proof -
  let ?ka = "[(''name'', JStr ''A'')]"
  let ?kb = "[(''name'', JStr ''B'')]"
  let ?j = "[(''name'', JStr ''pin''), (''type'', JStr ''RevoluteJointType''),
                (''body_one'', JStr ''A''), (''body_two'', JStr ''B''),
                (''origin'', JObj [(''x'', JNum 1000), (''y'', JNum 2000), (''z'', JNum 3000)])]"
  let ?doc = "[(''model_name'', JStr ''pendulum''),
            (''bodies'', JArr [JObj ?ka, JObj ?kb]),
            (''joints'', JArr [JObj ?j])]"
  let ?env = "example_env (\<lambda>p. if p = ''model.json'' then Document (JObj ?doc) else NoSuchFile)"
  have loads: "create_bodies ?env [JObj ?ka, JObj ?kb]
                  (case None of
                     None \<Rightarrow> path_join ?env (path_dirname ?env ''model.json'') ''geometries''
                   | Some d \<Rightarrow> d)
                  Map.empty ChSystemNSC_new
      = Inr (Map.empty(''A'' \<mapsto> 0, ''B'' \<mapsto> 1),
             ChSystemNSC_new\<lparr>bodies := [ChBody_new\<lparr>body_name := ''A''\<rparr>,
                                          ChBody_new\<lparr>body_name := ''B''\<rparr>]\<rparr>)"
    by (simp add: create_body_from_data_def set_mass_properties_def apply_transform_def
        load_geometry_def ChSystemNSC_new_def Let_def)
  have "\<exists>a b. load_model_from_json ?env ''model.json'' None
    = Inr \<lparr>g_acc = (0, - 9.81, 0), bodies = [a, b],
           links = [\<lparr>link_class = ChLinkLockRevolute, link_body_one = 0, link_body_two = 1,
                     link_origin = (1000 / 1000, 2000 / 1000, 3000 / 1000),
                     link_name = ''pin''\<rparr>]\<rparr>
    \<and> body_name a = ''A'' \<and> body_name b = ''B''"
    by (rule revolute_joint_between_two_bodies [where doc = ?doc and ka = ?ka and kb = ?kb and j = ?j, OF _ _ _ _ _ _ loads])
      (simp_all add: example_env_def)
  then show ?thesis by simp
qed

section \<open>Properties of the cable export\<close>

text \<open>
  Claim C9. With one selected sketch line from (100, 200, 300) to (400, 500, 600), a
  confirmed save dialog and a file that can be written, the export writes the header
  line and then exactly the row 1.0,2.0,3.0,4.0,5.0,6.0, every coordinate divided by
  100, given that the interpreter prints the floats 1.0 to 6.0 as Python does.
\<close>

theorem cable_export_row:
  assumes "float_str env 1 = ''1.0''" and "float_str env 2 = ''2.0''"
    and "float_str env 3 = ''3.0''" and "float_str env 4 = ''4.0''"
    and "float_str env 5 = ''5.0''" and "float_str env 6 = ''6.0''"
  shows "run env [SketchLine (100, 200, 300) (400, 500, 600)] (DialogOK filename) True
         = Exported filename
             (''StartX,StartY,StartZ,EndX,EndY,EndZ'' @ [CHR 0x0A]
              @ ''1.0,2.0,3.0,4.0,5.0,6.0'' @ [CHR 0x0A])
             1"
  using assms by (simp add: run_def cable_row_def Let_def)

lemma example_float_str:
  "float_str (example_env fs) 1 = ''1.0''" "float_str (example_env fs) 2 = ''2.0''"
  "float_str (example_env fs) 3 = ''3.0''" "float_str (example_env fs) 4 = ''4.0''"
  "float_str (example_env fs) 5 = ''5.0''" "float_str (example_env fs) 6 = ''6.0''"
  by (simp_all add: example_env_def show_nat.simps)

theorem cable_export_row_witness:
  "run (example_env no_files) [SketchLine (100, 200, 300) (400, 500, 600)]
     (DialogOK ''cables.csv'') True
   = Exported ''cables.csv''
       (''StartX,StartY,StartZ,EndX,EndY,EndZ'' @ [CHR 0x0A]
        @ ''1.0,2.0,3.0,4.0,5.0,6.0'' @ [CHR 0x0A])
       1"
  by (rule cable_export_row [OF example_float_str])

end
